theory Spec2Isabelle
  imports Complex_Main
begin

section \<open>Data model\<close>

text \<open>
  The two components of the application, \<^verbatim>\<open>PlacesSearch.tsx\<close> and \<^verbatim>\<open>MapScreen.tsx\<close>,
  are React function components. Their \<^verbatim>\<open>useState\<close> cells, the one AsyncStorage slot
  \<^verbatim>\<open>searchHistory\<close> they share, the writes to it that have not settled and the pending
  debounce timer are the fields of one record \<open>app\<close>; every handler is a function from
  \<open>app\<close> to \<open>app\<close>. What a handler does to the
  outside world (the callback, the HTTP calls, the storage calls, the console) is appended to
  the field \<open>effects\<close>, oldest first.

  Strings are lists of characters; \<open>length\<close> stands for the \<^verbatim>\<open>.length\<close> of the source.
  Coordinates are real numbers: the code only copies and compares them. The layout, the
  filter over the recent searches, \<^verbatim>\<open>handleClear\<close> and the focus handlers of the input
  are left out.
\<close>

record coords =
  latitude :: real
  longitude :: real

record region = coords +
  latitudeDelta :: real
  longitudeDelta :: real

record location =
  lat :: real
  lng :: real

text \<open>
  The interfaces are unchecked at run time: a property the response lacks reads as
  \<^verbatim>\<open>undefined\<close>, here \<open>None\<close>, and is copied as such into the records built from it.
  \<^verbatim>\<open>JSON.stringify\<close> leaves such a property out and \<^verbatim>\<open>JSON.parse\<close> gives a record that
  lacks it again.
\<close>

record structured_formatting =
  main_text :: "string option"
  secondary_text :: "string option"

text \<open>
  \<^verbatim>\<open>interface Place\<close>; \<open>location\<close> is the optional field of the declaration in
  \<^verbatim>\<open>MapScreen.tsx\<close>, absent from every record \<^verbatim>\<open>PlacesSearch\<close> builds. \<open>description\<close> is the
  result of a string concatenation, always a string.
\<close>

record place =
  place_id :: "string option"
  description :: string
  structured_formatting :: structured_formatting
  location :: "location option"

text \<open>
  The body of an autocomplete response, as far as the code reads it. Where the code reads
  a property of an object, the object is an \<open>option\<close>: reading a property of an absent
  object throws a \<^verbatim>\<open>TypeError\<close>. The properties read last, \<^verbatim>\<open>placeId\<close> and the \<^verbatim>\<open>text\<close> of
  \<^verbatim>\<open>mainText\<close> and \<^verbatim>\<open>secondaryText\<close>, are \<open>None\<close> when the body lacks them: reading them
  throws nothing.
\<close>

datatype textObject = TextObject (text_of: "string option")

datatype structuredFormat =
  StructuredFormat (mainText: "textObject option") (secondaryText: "textObject option")

datatype placePrediction =
  PlacePrediction (placeId: "string option") (structuredFormat: "structuredFormat option")

datatype suggestion = Suggestion (placePrediction: "placePrediction option")

text \<open>\<open>None\<close>: the body has no \<^verbatim>\<open>suggestions\<close>, or they are no array.\<close>

type_synonym AutocompleteResponse = "suggestion list option"


datatype error = TransportError | TypeError

text \<open>How an awaited AsyncStorage call settles.\<close>

datatype outcome = Fulfils | Rejects

text \<open>
  The closure of one \<^verbatim>\<open>setTimeout(fetchPredictions, 300)\<close>: when it is due, and the
  \<^verbatim>\<open>searchText\<close> and \<^verbatim>\<open>userLocation\<close> of the render that created it.
\<close>

record debounce =
  due :: nat
  query :: string
  bias :: "coords option"

datatype effect =
    OnPlaceSelect place
  | AutocompletePost string "coords option"
  | DetailsGet "string option"
  | GetItem
  | SetItem "place list"
  | KeyboardDismiss
  | ConsoleError string

record app =
  searchText :: string
  predictions :: "place list"
  loading :: bool
  recentSearches :: "place list"
  isInputFocused :: bool
  userLocation :: "coords option"
  debounceTimer :: "debounce option"
  selectedPlace :: "place option"
  searchHistory :: "place list"
  region :: region
  storage :: "place list option"
  pendingSave :: "(outcome \<times> place list) list"
  clock :: nat
  effects :: "effect list"

definition emit :: "effect \<Rightarrow> app \<Rightarrow> app" where
  "emit e s = s\<lparr>effects := effects s @ [e]\<rparr>"

section \<open>The history store\<close>

text \<open>
  The slot holds \<^verbatim>\<open>JSON.stringify\<close> of a list of places, or nothing; \<^verbatim>\<open>JSON.parse\<close> gives
  the list back. An awaited storage call is taken to settle before the next handler runs,
  and the calls settle in the order they are issued; a rejected \<^verbatim>\<open>setItem\<close> leaves the
  slot as it was.
\<close>

definition loadRecentSearches :: "outcome \<Rightarrow> app \<Rightarrow> app" where
  "loadRecentSearches rd s =
     (let s1 = emit GetItem s in
      case rd of
        Rejects \<Rightarrow> emit (ConsoleError ''Error loading recent searches:'') s1
      | Fulfils \<Rightarrow>
          (case storage s1 of
             None \<Rightarrow> s1
           | Some history \<Rightarrow> s1\<lparr>recentSearches := history\<rparr>))"

text \<open>
  \<^verbatim>\<open>saveToRecentSearches\<close> from the point where its \<^verbatim>\<open>getItem\<close> has settled, and the whole
  of it: the call of \<^verbatim>\<open>getItem\<close>, then the rest.
\<close>

definition saveToRecentSearches_resume ::
    "outcome \<Rightarrow> outcome \<Rightarrow> place \<Rightarrow> app \<Rightarrow> app" where
  "saveToRecentSearches_resume rd wr p s1 =
     (case rd of
        Rejects \<Rightarrow> emit (ConsoleError ''Error saving to recent searches:'') s1
      | Fulfils \<Rightarrow>
          (let rs0 = (case storage s1 of None \<Rightarrow> [] | Some history \<Rightarrow> history);
               rs1 = filter (\<lambda>q. place_id q \<noteq> place_id p) rs0;
               rs2 = p # rs1;
               rs3 = take 10 rs2;
               s2 = emit (SetItem rs3) s1
           in case wr of
                Rejects \<Rightarrow> emit (ConsoleError ''Error saving to recent searches:'') s2
              | Fulfils \<Rightarrow> s2\<lparr>storage := Some rs3, recentSearches := rs3\<rparr>))"

definition saveToRecentSearches :: "outcome \<Rightarrow> outcome \<Rightarrow> place \<Rightarrow> app \<Rightarrow> app" where
  "saveToRecentSearches rd wr p s =
     (let s1 = emit GetItem s in saveToRecentSearches_resume rd wr p s1)"

definition loadSearchHistory :: "outcome \<Rightarrow> app \<Rightarrow> app" where
  "loadSearchHistory rd s =
     (let s1 = emit GetItem s in
      case rd of
        Rejects \<Rightarrow> emit (ConsoleError ''Error loading search history:'') s1
      | Fulfils \<Rightarrow>
          (case storage s1 of
             None \<Rightarrow> s1
           | Some history \<Rightarrow> s1\<lparr>searchHistory := history\<rparr>))"

text \<open>
  \<^verbatim>\<open>saveSearchHistory\<close> is called without \<^verbatim>\<open>await\<close>: it runs up to its \<^verbatim>\<open>setItem\<close> and
  returns. The write is then pending, with the list it writes and with how it will settle;
  \<open>saveSearchHistory_resume\<close> is the rest of the function, run when the write settles.
\<close>

definition saveSearchHistory :: "outcome \<Rightarrow> place \<Rightarrow> app \<Rightarrow> app" where
  "saveSearchHistory wr p s =
     (let newHistory = take 10 (p # searchHistory s);
          s1 = emit (SetItem newHistory) s
      in s1\<lparr>pendingSave := pendingSave s1 @ [(wr, newHistory)]\<rparr>)"

definition saveSearchHistory_resume :: "outcome \<times> place list \<Rightarrow> app \<Rightarrow> app" where
  "saveSearchHistory_resume w s =
     (case fst w of
        Rejects \<Rightarrow> emit (ConsoleError ''Error saving search history:'') s
      | Fulfils \<Rightarrow> s\<lparr>storage := Some (snd w), searchHistory := snd w\<rparr>)"

text \<open>The pending writes settle, oldest first.\<close>

definition storage_settles :: "app \<Rightarrow> app" where
  "storage_settles s = (fold saveSearchHistory_resume (pendingSave s) s)\<lparr>pendingSave := []\<rparr>"

section \<open>The debounced lookup\<close>

text \<open>
  \<^verbatim>\<open>useEffect(..., [searchText, apiKey, userLocation])\<close>: when a dependency changes, the
  cleanup of the previous run clears its timer and the new run sets one, due 300 ms later.
  \<^verbatim>\<open>apiKey\<close> is a prop that never changes. The effect reads nothing a handler writes after
  its \<^verbatim>\<open>setSearchText\<close>, so it is run where the text is set.
\<close>

definition debounce_effect :: "app \<Rightarrow> app" where
  "debounce_effect s =
     s\<lparr>debounceTimer :=
         Some \<lparr>due = clock s + 300, query = searchText s, bias = userLocation s\<rparr>\<rparr>"

text \<open>A state cell set to the value it holds causes no render and no effect.\<close>

definition setSearchText :: "string \<Rightarrow> app \<Rightarrow> app" where
  "setSearchText t s =
     (if t = searchText s then s else debounce_effect (s\<lparr>searchText := t\<rparr>))"

text \<open>The operand of a string concatenation: \<^verbatim>\<open>undefined\<close> becomes the word.\<close>

definition concat_operand :: "string option \<Rightarrow> string" where
  "concat_operand v = (case v of None \<Rightarrow> ''undefined'' | Some x \<Rightarrow> x)"

definition transformSuggestion :: "placePrediction \<Rightarrow> error + place" where
  "transformSuggestion pp =
     (case structuredFormat pp of
        None \<Rightarrow> Inl TypeError
      | Some sf \<Rightarrow>
          (case mainText sf of
             None \<Rightarrow> Inl TypeError
           | Some mt \<Rightarrow>
               (case secondaryText sf of
                  None \<Rightarrow> Inl TypeError
                | Some st \<Rightarrow>
                    Inr \<lparr>place_id = placeId pp,
                         description =
                           concat_operand (text_of mt) @
                           (case text_of st of
                              None \<Rightarrow> []
                            | Some x \<Rightarrow> if x \<noteq> [] then '' - '' @ x else []),
                         structured_formatting =
                           \<lparr>main_text = text_of mt, secondary_text = text_of st\<rparr>,
                         location = None\<rparr>)))"

fun transformAll :: "suggestion list \<Rightarrow> error + place list" where
  "transformAll [] = Inr []"
| "transformAll (Suggestion None # xs) = transformAll xs"
| "transformAll (Suggestion (Some pp) # xs) =
     (case transformSuggestion pp of
        Inl e \<Rightarrow> Inl e
      | Inr p \<Rightarrow> (case transformAll xs of Inl e \<Rightarrow> Inl e | Inr ps \<Rightarrow> Inr (p # ps)))"

definition transformedPredictions :: "AutocompleteResponse \<Rightarrow> error + place list" where
  "transformedPredictions body =
     (case body of None \<Rightarrow> Inl TypeError | Some suggestions \<Rightarrow> transformAll suggestions)"

text \<open>The timer's callback, up to its \<^verbatim>\<open>await\<close>.\<close>

definition fetchPredictions :: "debounce \<Rightarrow> app \<Rightarrow> app" where
  "fetchPredictions tm s =
     (if length (query tm) < 2 then s\<lparr>predictions := []\<rparr>
      else emit (AutocompletePost (query tm) (bias tm)) (s\<lparr>loading := True\<rparr>))"

text \<open>
  The rest of the callback, run when the request settles: \<open>Inl\<close> when \<^verbatim>\<open>axios.post\<close>
  rejects (no connection, a status outside 2xx), \<open>Inr\<close> with the body otherwise.
\<close>

definition fetchPredictions_resume :: "error + AutocompleteResponse \<Rightarrow> app \<Rightarrow> app" where
  "fetchPredictions_resume r s =
     (let s1 =
        (case r of
           Inl e \<Rightarrow> emit (ConsoleError ''Error fetching predictions:'') s
         | Inr body \<Rightarrow>
             (case transformedPredictions body of
                Inl e \<Rightarrow> emit (ConsoleError ''Error fetching predictions:'') s
              | Inr ps \<Rightarrow> s\<lparr>predictions := ps\<rparr>))
      in s1\<lparr>loading := False\<rparr>)"

definition handleTextChange :: "string \<Rightarrow> app \<Rightarrow> app" where
  "handleTextChange t s =
     (let s1 = setSearchText t s in
      if length t = 0 then s1\<lparr>predictions := [], isInputFocused := False\<rparr>
      else s1\<lparr>isInputFocused := True\<rparr>)"

text \<open>
  \<^verbatim>\<open>getUserLocation\<close> of \<^verbatim>\<open>PlacesSearch\<close>, when its awaits settle: an exception, a
  permission that is not granted, or a position. The position is a new object, so the
  debounce effect runs again.
\<close>

definition getUserLocation :: "error + coords option \<Rightarrow> app \<Rightarrow> app" where
  "getUserLocation r s =
     (case r of
        Inl e \<Rightarrow> emit (ConsoleError ''Error getting location:'') s
      | Inr None \<Rightarrow> s
      | Inr (Some c) \<Rightarrow> debounce_effect (s\<lparr>userLocation := Some c\<rparr>))"

section \<open>Time\<close>

text \<open>
  Time passes until \<open>t\<close>: a pending timer that is due by then fires. Its callback changes
  no dependency of the effect, so no new timer is set.
\<close>

definition advance :: "nat \<Rightarrow> app \<Rightarrow> app" where
  "advance t s =
     (let s1 =
        (case debounceTimer s of
           None \<Rightarrow> s
         | Some tm \<Rightarrow>
             if due tm \<le> t then fetchPredictions tm (s\<lparr>debounceTimer := None\<rparr>) else s)
      in s1\<lparr>clock := max t (clock s)\<rparr>)"

text \<open>A sequence of edits, each with the time at which it arrives.\<close>

fun edits :: "(nat \<times> string) list \<Rightarrow> app \<Rightarrow> app" where
  "edits [] s = s"
| "edits ((t, x) # es) s = edits es (handleTextChange x (advance t s))"

text \<open>The debounce window elapses with no further event.\<close>

definition settle :: "app \<Rightarrow> app" where
  "settle s = advance (clock s + 300) s"

section \<open>Selection\<close>

text \<open>
  \<^verbatim>\<open>handlePlaceSelect\<close> of \<^verbatim>\<open>MapScreen\<close>, up to the \<^verbatim>\<open>await\<close> of the details request. The
  id goes into the URL of the request as it is.
\<close>

definition MapScreen_handlePlaceSelect :: "outcome \<Rightarrow> place \<Rightarrow> app \<Rightarrow> app" where
  "MapScreen_handlePlaceSelect wr p s =
     (let s1 = s\<lparr>selectedPlace := Some p\<rparr>;
          s2 = saveSearchHistory wr p s1
      in emit (DetailsGet (place_id p)) s2)"




text \<open>
  \<^verbatim>\<open>handlePlaceSelect\<close> of \<^verbatim>\<open>PlacesSearch\<close>; \<open>onPlaceSelect\<close> is the prop, \<open>rd\<close> and \<open>wr\<close>
  are how the read and the write of \<^verbatim>\<open>saveToRecentSearches\<close> settle. Its last statement
  awaits \<^verbatim>\<open>saveToRecentSearches\<close>: that issues its \<^verbatim>\<open>getItem\<close>, the writes the callback left
  pending settle before the read does, and the rest follows.
\<close>

definition PlacesSearch_handlePlaceSelect ::
    "(place \<Rightarrow> app \<Rightarrow> app) \<Rightarrow> outcome \<Rightarrow> outcome \<Rightarrow> place \<Rightarrow> app \<Rightarrow> app" where
  "PlacesSearch_handlePlaceSelect onPlaceSelect rd wr p s =
     (let s1 = onPlaceSelect p (emit (OnPlaceSelect p) s);
          s2 = setSearchText [] s1;
          s3 = s2\<lparr>predictions := [], isInputFocused := False\<rparr>;
          s4 = emit KeyboardDismiss s3;
          s5 = emit GetItem s4;
          s6 = storage_settles s5
      in saveToRecentSearches_resume rd wr p s6)"

text \<open>
  The application as \<^verbatim>\<open>MapScreen\<close> wires it:
  \<^verbatim>\<open><PlacesSearch onPlaceSelect={handlePlaceSelect} />\<close>. \<open>mw\<close> is how the write of
  \<^verbatim>\<open>saveSearchHistory\<close> settles.
\<close>

definition select_place :: "outcome \<Rightarrow> outcome \<Rightarrow> outcome \<Rightarrow> place \<Rightarrow> app \<Rightarrow> app" where
  "select_place mw rd wr p s =
     PlacesSearch_handlePlaceSelect (MapScreen_handlePlaceSelect mw) rd wr p s"

fun selections :: "place list \<Rightarrow> app \<Rightarrow> app" where
  "selections [] s = s"
| "selections (p # ps) s = selections ps (select_place Fulfils Fulfils Fulfils p s)"

section \<open>Mounting\<close>

text \<open>
  The initial values of the state cells over a slot holding \<open>st\<close>, and the state once the
  mount effects have run: both components have read the slot and the first debounce timer
  is set. The location requests are still pending.
\<close>

definition initial :: "place list option \<Rightarrow> app" where
  "initial st =
     \<lparr>searchText = [], predictions = [], loading = False, recentSearches = [],
      isInputFocused = False, userLocation = None, debounceTimer = None,
      selectedPlace = None, searchHistory = [],
      region = \<lparr>latitude = 37.78825, longitude = - 122.4324,
                latitudeDelta = 0.0922, longitudeDelta = 0.0421\<rparr>,
      storage = st, pendingSave = [], clock = 0, effects = []\<rparr>"

definition mount :: "place list option \<Rightarrow> app" where
  "mount st =
     loadSearchHistory Fulfils (debounce_effect (loadRecentSearches Fulfils (initial st)))"

text \<open>The words of the specification, for comparison with the code.\<close>

definition spec_is_space :: "char \<Rightarrow> bool" where
  "spec_is_space c = (c \<in> set [CHR '' '', CHR 0x09, CHR 0x0A, CHR 0x0B, CHR 0x0C, CHR 0x0D])"

definition spec_trim :: "string \<Rightarrow> string" where
  "spec_trim t = rev (dropWhile spec_is_space (rev (dropWhile spec_is_space t)))"

definition history_invariant :: "place list \<Rightarrow> bool" where
  "history_invariant h = (distinct (map place_id h) \<and> length h \<le> 10)"

definition posts :: "effect list \<Rightarrow> effect list" where
  "posts es = filter (\<lambda>e. case e of AutocompletePost q b \<Rightarrow> True | _ \<Rightarrow> False) es"

definition writes :: "effect list \<Rightarrow> effect list" where
  "writes es = filter (\<lambda>e. case e of SetItem h \<Rightarrow> True | _ \<Rightarrow> False) es"

definition callbacks :: "effect list \<Rightarrow> effect list" where
  "callbacks es = filter (\<lambda>e. case e of OnPlaceSelect p \<Rightarrow> True | _ \<Rightarrow> False) es"

text \<open>What a handler added to the effects of \<open>s\<close> on the way to \<open>s'\<close>.\<close>

definition since :: "app \<Rightarrow> app \<Rightarrow> effect list" where
  "since s s' = drop (length (effects s)) (effects s')"

text \<open>
  Edits that follow each other closely: the first no earlier than \<open>t\<close> and less than
  300 ms after it, and so on from each edit to the next.
\<close>

fun rapid :: "nat \<Rightarrow> (nat \<times> string) list \<Rightarrow> bool" where
  "rapid t [] = True"
| "rapid t ((t', x) # es) = (t \<le> t' \<and> t' < t + 300 \<and> rapid t' es)"

text \<open>Every edit gives the input a text other than the one it held.\<close>

fun changing :: "string \<Rightarrow> (nat \<times> string) list \<Rightarrow> bool" where
  "changing x [] = True"
| "changing x ((t, y) # es) = (y \<noteq> x \<and> changing y es)"

text \<open>The timer of the current text has just been set.\<close>

definition armed :: "app \<Rightarrow> bool" where
  "armed s =
     (debounceTimer s =
        Some \<lparr>due = clock s + 300, query = searchText s, bias = userLocation s\<rparr>)"

text \<open>
  The bodies on which the transformation throws: no array of suggestions, or a suggestion
  with a \<^verbatim>\<open>placePrediction\<close> that lacks \<^verbatim>\<open>structuredFormat\<close>, or its \<^verbatim>\<open>mainText\<close> or
  \<^verbatim>\<open>secondaryText\<close> object.
\<close>

definition throws :: "AutocompleteResponse \<Rightarrow> bool" where
  "throws body =
     (case body of
        None \<Rightarrow> True
      | Some suggestions \<Rightarrow>
          list_ex
            (\<lambda>sg. case placePrediction sg of
                    None \<Rightarrow> False
                  | Some pp \<Rightarrow>
                      (case structuredFormat pp of
                         None \<Rightarrow> True
                       | Some sf \<Rightarrow> mainText sf = None \<or> secondaryText sf = None))
            suggestions)"

text \<open>The failures the code notices: the request rejects, or the body throws.\<close>

definition failed :: "error + AutocompleteResponse \<Rightarrow> bool" where
  "failed r = (case r of Inl e \<Rightarrow> True | Inr body \<Rightarrow> throws body)"

text \<open>
  The body as the specification describes it: a list of suggestions, each with an
  identifier and a primary and a secondary text. Any other body is malformed.
\<close>

definition spec_well_formed :: "AutocompleteResponse \<Rightarrow> bool" where
  "spec_well_formed body =
     (case body of
        None \<Rightarrow> False
      | Some suggestions \<Rightarrow>
          list_all
            (\<lambda>sg. case placePrediction sg of
                    None \<Rightarrow> False
                  | Some pp \<Rightarrow>
                      placeId pp \<noteq> None \<and>
                      (case structuredFormat pp of
                         None \<Rightarrow> False
                       | Some sf \<Rightarrow>
                           (case mainText sf of None \<Rightarrow> False | Some m \<Rightarrow> text_of m \<noteq> None) \<and>
                           (case secondaryText sf of
                              None \<Rightarrow> False
                            | Some t \<Rightarrow> text_of t \<noteq> None)))
            suggestions)"

subsection \<open>Example data\<close>

definition place_A :: place where
  "place_A =
     \<lparr>place_id = Some ''A'', description = ''Alpha'',
      structured_formatting = \<lparr>main_text = Some ''Alpha'', secondary_text = Some []\<rparr>,
      location = None\<rparr>"

definition place_B :: place where
  "place_B =
     \<lparr>place_id = Some ''B'', description = ''Beta - Town'',
      structured_formatting = \<lparr>main_text = Some ''Beta'', secondary_text = Some ''Town''\<rparr>,
      location = None\<rparr>"

definition response_A :: AutocompleteResponse where
  "response_A =
     Some [Suggestion (Some (PlacePrediction (Some ''A'')
       (Some (StructuredFormat (Some (TextObject (Some ''Alpha'')))
          (Some (TextObject (Some [])))))))]"

definition response_B :: AutocompleteResponse where
  "response_B =
     Some [Suggestion (Some (PlacePrediction (Some ''B'')
       (Some (StructuredFormat (Some (TextObject (Some ''Beta'')))
          (Some (TextObject (Some ''Town'')))))))]"

text \<open>
  A body whose \<^verbatim>\<open>mainText\<close> and \<^verbatim>\<open>secondaryText\<close> are objects without \<^verbatim>\<open>text\<close>, and the
  record the transformation makes of it.
\<close>

definition response_without_text :: AutocompleteResponse where
  "response_without_text =
     Some [Suggestion (Some (PlacePrediction (Some ''B'')
       (Some (StructuredFormat (Some (TextObject None)) (Some (TextObject None))))))]"

definition place_without_text :: place where
  "place_without_text =
     \<lparr>place_id = Some ''B'', description = ''undefined'',
      structured_formatting = \<lparr>main_text = None, secondary_text = None\<rparr>,
      location = None\<rparr>"


section \<open>Helper lemmas\<close>

lemmas model_defs =
  mount_def initial_def loadSearchHistory_def loadRecentSearches_def debounce_effect_def
  emit_def advance_def settle_def handleTextChange_def setSearchText_def fetchPredictions_def
  fetchPredictions_resume_def select_place_def PlacesSearch_handlePlaceSelect_def
  MapScreen_handlePlaceSelect_def saveSearchHistory_def saveSearchHistory_resume_def
  storage_settles_def saveToRecentSearches_def saveToRecentSearches_resume_def Let_def
  posts_def writes_def callbacks_def since_def

lemma transformed_response_A: "transformedPredictions response_A = Inr [place_A]"
  by (simp add: transformedPredictions_def response_A_def transformSuggestion_def
      concat_operand_def place_A_def)

lemma transformed_response_B: "transformedPredictions response_B = Inr [place_B]"
  by (simp add: transformedPredictions_def response_B_def transformSuggestion_def
      concat_operand_def place_B_def)

lemma transformed_response_without_text:
  "transformedPredictions response_without_text = Inr [place_without_text]"
  by (simp add: transformedPredictions_def response_without_text_def transformSuggestion_def
      concat_operand_def place_without_text_def)

text \<open>The transformation throws on the bodies of \<open>throws\<close> and on no other.\<close>

lemma isl_transformSuggestion:
  "isl (transformSuggestion pp) =
     (case structuredFormat pp of
        None \<Rightarrow> True
      | Some sf \<Rightarrow> mainText sf = None \<or> secondaryText sf = None)"
  by (simp add: transformSuggestion_def split: option.splits)

lemma transformAll_throws:
  "isl (transformAll suggestions) =
     list_ex
       (\<lambda>sg. case placePrediction sg of
               None \<Rightarrow> False
             | Some pp \<Rightarrow>
                 (case structuredFormat pp of
                    None \<Rightarrow> True
                  | Some sf \<Rightarrow> mainText sf = None \<or> secondaryText sf = None))
       suggestions"
proof (induction suggestions rule: transformAll.induct)
  case 1
  show ?case by simp
next
  case (2 xs)
  then show ?case by simp
next
  case (3 pp xs)
  note first = isl_transformSuggestion [of pp]
  show ?case
  proof (cases "transformSuggestion pp")
    case (Inl e)
    with first show ?thesis by simp
  next
    case (Inr p)
    with first 3 show ?thesis by (cases "transformAll xs") simp_all
  qed
qed

lemma transformedPredictions_throws: "isl (transformedPredictions body) = throws body"
  by (cases body) (simp_all add: transformedPredictions_def throws_def transformAll_throws)

text \<open>
  Pending writes that settle add nothing to the effects but the messages of those that
  fail, and leave the state of the search box, the selected place and the region alone.
\<close>

lemma settled_writes_effects:
  "effects (fold saveSearchHistory_resume ws s) =
     effects s @
     map (\<lambda>w. ConsoleError ''Error saving search history:'') (filter (\<lambda>w. fst w = Rejects) ws)"
  by (induction ws arbitrary: s)
    (simp_all add: saveSearchHistory_resume_def emit_def split: outcome.splits)

lemma settled_writes_fields:
  "recentSearches (fold saveSearchHistory_resume ws s) = recentSearches s
   \<and> selectedPlace (fold saveSearchHistory_resume ws s) = selectedPlace s
   \<and> region (fold saveSearchHistory_resume ws s) = region s"
  by (induction ws arbitrary: s)
    (simp_all add: saveSearchHistory_resume_def emit_def split: outcome.splits)

lemma place_A_neq_B: "place_A \<noteq> place_B"
  by (simp add: place_A_def place_B_def)

lemma filter_absent_id: "f p \<notin> set (map f h) \<Longrightarrow> filter (\<lambda>q. f q \<noteq> f p) h = h"
  by (induction h) auto

text \<open>Removing an id that occurs in a list of distinct ids removes one entry.\<close>

lemma length_filter_other_ids:
  "distinct (map f h) \<Longrightarrow> f p \<in> set (map f h) \<Longrightarrow>
     length (filter (\<lambda>q. f q \<noteq> f p) h) = length h - 1"
proof (induction h)
  case Nil
  then show ?case by simp
next
  case (Cons a h)
  show ?case
  proof (cases "f a = f p")
    case True
    with Cons.prems have "f p \<notin> set (map f h)" by auto
    then have "filter (\<lambda>q. f q \<noteq> f p) h = h" by (rule filter_absent_id)
    with True show ?thesis by simp
  next
    case False
    with Cons.prems have in_tail: "f p \<in> set (map f h)" and "distinct (map f h)" by auto
    with Cons.IH have "length (filter (\<lambda>q. f q \<noteq> f p) h) = length h - 1" by simp
    moreover from in_tail have "0 < length h" by auto
    ultimately show ?thesis using False by simp
  qed
qed

subsection \<open>The debounce timer under rapid edits\<close>

lemma advance_early:
  "armed s \<Longrightarrow> clock s \<le> t \<Longrightarrow> t < clock s + 300 \<Longrightarrow> advance t s = s\<lparr>clock := t\<rparr>"
  by (simp add: armed_def advance_def max_def)

lemma handleTextChange_armed: "y \<noteq> searchText s \<Longrightarrow> armed (handleTextChange y s)"
  by (simp add: armed_def handleTextChange_def setSearchText_def debounce_effect_def Let_def)

lemma handleTextChange_fields:
  "effects (handleTextChange y s) = effects s"
  "clock (handleTextChange y s) = clock s"
  "userLocation (handleTextChange y s) = userLocation s"
  "searchText (handleTextChange y s) = y"
  by (simp_all add: handleTextChange_def setSearchText_def debounce_effect_def Let_def)

lemma advance_fields:
  "clock (advance t s) = max t (clock s)"
  "searchText (advance t s) = searchText s"
  "userLocation (advance t s) = userLocation s"
  by (simp_all add: advance_def fetchPredictions_def emit_def split: option.splits)

text \<open>
  While the edits stay rapid and each changes the text, no timer fires: the effects are
  those of the start, and the timer pending at the end is the one of the last text.
\<close>

lemma edits_rapid:
  "armed s \<Longrightarrow> rapid (clock s) es \<Longrightarrow> changing (searchText s) es \<Longrightarrow>
     armed (edits es s) \<and> effects (edits es s) = effects s
     \<and> userLocation (edits es s) = userLocation s
     \<and> searchText (edits es s) = snd (last ((clock s, searchText s) # es))"
proof (induction es arbitrary: s)
  case Nil
  then show ?case by simp
next
  case (Cons e es)
  obtain t y where e: "e = (t, y)" by (cases e)
  from Cons.prems e have t: "clock s \<le> t" "t < clock s + 300" and y: "y \<noteq> searchText s"
    and r: "rapid t es" and c: "changing y es" by auto
  let ?s1 = "handleTextChange y (advance t s)"
  have adv: "advance t s = s\<lparr>clock := t\<rparr>" using Cons.prems(1) t by (rule advance_early)
  have a1: "armed ?s1" using y by (intro handleTextChange_armed) (simp add: adv)
  have f1: "effects ?s1 = effects s" "clock ?s1 = t" "userLocation ?s1 = userLocation s"
    "searchText ?s1 = y"
    by (simp_all add: handleTextChange_fields adv)
  from Cons.IH[of ?s1] a1 r c f1 have
    "armed (edits es ?s1) \<and> effects (edits es ?s1) = effects s
     \<and> userLocation (edits es ?s1) = userLocation s
     \<and> searchText (edits es ?s1) = snd (last ((t, y) # es))" by simp
  then show ?case by (simp add: e)
qed

lemma settle_armed:
  "armed s \<Longrightarrow> since s (settle s) =
     (if length (searchText s) < 2 then []
      else [AutocompletePost (searchText s) (userLocation s)])"
  by (simp add: armed_def settle_def advance_def fetchPredictions_def since_def emit_def)

lemma settle_armed_idle: "armed s \<Longrightarrow> debounceTimer (settle s) = None"
  by (simp add: armed_def settle_def advance_def fetchPredictions_def emit_def)

subsection \<open>What a selection does\<close>

text \<open>The effects of a selection in the application when no earlier write is pending.\<close>

lemma select_place_effects:
  "pendingSave s = [] \<Longrightarrow>
   effects (select_place mw rd wr p s) = effects s @
     [OnPlaceSelect p, SetItem (take 10 (p # searchHistory s)), DetailsGet (place_id p),
      KeyboardDismiss, GetItem] @
     (case mw of Fulfils \<Rightarrow> [] | Rejects \<Rightarrow> [ConsoleError ''Error saving search history:'']) @
     (case rd of
        Rejects \<Rightarrow> [ConsoleError ''Error saving to recent searches:'']
      | Fulfils \<Rightarrow>
          [SetItem (take 10 (p # filter (\<lambda>q. place_id q \<noteq> place_id p)
             (case mw of
                Fulfils \<Rightarrow> take 10 (p # searchHistory s)
              | Rejects \<Rightarrow> (case storage s of None \<Rightarrow> [] | Some h \<Rightarrow> h))))] @
          (case wr of
             Fulfils \<Rightarrow> []
           | Rejects \<Rightarrow> [ConsoleError ''Error saving to recent searches:'']))"
  by (cases mw; cases rd; cases wr) (simp_all add: model_defs)

text \<open>Whatever the storage calls do, the slot never holds more than 10 entries.\<close>

lemma select_place_length_bound:
  "pendingSave s = [] \<Longrightarrow>
   (case storage s of None \<Rightarrow> True | Some h \<Rightarrow> length h \<le> 10) \<Longrightarrow>
   pendingSave (select_place mw rd wr p s) = [] \<and>
   (case storage (select_place mw rd wr p s) of None \<Rightarrow> True | Some h \<Rightarrow> length h \<le> 10)"
  by (cases mw; cases rd; cases wr) (auto simp add: model_defs split: option.splits)

lemma selections_length_bound:
  "pendingSave s = [] \<Longrightarrow>
   (case storage s of None \<Rightarrow> True | Some h \<Rightarrow> length h \<le> 10) \<Longrightarrow>
   (case storage (selections ps s) of None \<Rightarrow> True | Some h \<Rightarrow> length h \<le> 10)"
  by (induction ps arbitrary: s) (simp_all add: select_place_length_bound)


section \<open>The claims\<close>

subsection \<open>C1: responses that arrive out of order\<close>

text \<open>
  C1 says that the response of a lookup superseded by a later one is discarded. The code
  keeps no request token: what \<^verbatim>\<open>fetchPredictions\<close> does after its \<^verbatim>\<open>await\<close> depends on the
  response alone. Here \<^verbatim>\<open>ab\<close> is typed and looked up, \<^verbatim>\<open>cd\<close> is typed and looked up, the
  response for \<^verbatim>\<open>cd\<close> (\<open>response_B\<close>) arrives first and the one for \<^verbatim>\<open>ab\<close> (\<open>response_A\<close>)
  second: the list shows the suggestions for \<^verbatim>\<open>ab\<close>.
\<close>

theorem superseded_response_overwrites:
  "posts (effects (settle (edits [(0, ''ab''), (1000, ''cd'')] (mount None))))
     = [AutocompletePost ''ab'' None, AutocompletePost ''cd'' None]
   \<and> searchText (settle (edits [(0, ''ab''), (1000, ''cd'')] (mount None))) = ''cd''
   \<and> predictions (fetchPredictions_resume (Inr response_B)
        (settle (edits [(0, ''ab''), (1000, ''cd'')] (mount None)))) = [place_B]
   \<and> predictions (fetchPredictions_resume (Inr response_A)
        (fetchPredictions_resume (Inr response_B)
          (settle (edits [(0, ''ab''), (1000, ''cd'')] (mount None))))) = [place_A]
   \<and> [place_A] \<noteq> [place_B]"
  by (simp add: model_defs transformed_response_A transformed_response_B place_A_neq_B)

text \<open>
  C1, as the code has it: every response that can be transformed replaces the displayed
  list when it arrives, in whatever state and after whatever other response, so the list
  shows the response that arrived last.
\<close>

theorem last_arrived_response_is_displayed:
  "transformedPredictions ra = Inr pa \<Longrightarrow>
     predictions (fetchPredictions_resume (Inr ra) s) = pa
   \<and> predictions (fetchPredictions_resume (Inr ra) (fetchPredictions_resume rb s)) = pa"
  by (simp add: fetchPredictions_resume_def Let_def emit_def split: sum.splits)

theorem last_arrived_response_is_displayed_witness:
  "transformedPredictions response_A = Inr [place_A]
   \<and> predictions (fetchPredictions_resume (Inr response_A) (mount None)) = [place_A]
   \<and> predictions (fetchPredictions_resume (Inr response_A)
        (fetchPredictions_resume (Inl TransportError) (mount None))) = [place_A]"
  using last_arrived_response_is_displayed
    [of response_A "[place_A]" "mount None" "Inl TransportError"]
  by (simp add: transformed_response_A)

subsection \<open>C2: the invariant of the persisted history\<close>

text \<open>
  C2 says that after any sequence of selections from an empty history the persisted list
  has no two entries with one id and at most 10 entries. \<^verbatim>\<open>saveSearchHistory\<close> of
  \<^verbatim>\<open>MapScreen\<close> prepends to its own copy without removing the id, and
  \<^verbatim>\<open>saveToRecentSearches\<close> then removes only the id just selected from what it reads back.
  Selecting A, A again and then B leaves B, A, A in the slot and in the recent searches.
  (The bound of 10 does hold: \<open>selections_length_bound\<close>.)
\<close>

theorem reselection_leaves_duplicate_ids:
  "storage (selections [place_A, place_A, place_B] (mount None))
     = Some [place_B, place_A, place_A]
   \<and> recentSearches (selections [place_A, place_A, place_B] (mount None))
     = [place_B, place_A, place_A]
   \<and> \<not> history_invariant [place_B, place_A, place_A]"
  by (simp add: model_defs history_invariant_def place_A_def place_B_def)

subsection \<open>C3: one callback, and the writes of a selection\<close>

text \<open>
  C3 says that a selection makes exactly one write to the history slot. In the application
  the callback itself writes the slot (\<^verbatim>\<open>saveSearchHistory\<close>) before \<^verbatim>\<open>saveToRecentSearches\<close>
  does: a selection where nothing fails makes two writes. Counting the writes of
  \<^verbatim>\<open>PlacesSearch\<close> alone, under a callback that does nothing, a selection whose read of the
  slot fails makes none.
\<close>

theorem selection_writes_twice:
  "callbacks (since (mount None) (select_place Fulfils Fulfils Fulfils place_A (mount None)))
     = [OnPlaceSelect place_A]
   \<and> writes (since (mount None) (select_place Fulfils Fulfils Fulfils place_A (mount None)))
     = [SetItem [place_A], SetItem [place_A]]
   \<and> writes (since (mount None)
        (PlacesSearch_handlePlaceSelect (\<lambda>p s. s) Rejects Fulfils place_A (mount None))) = []"
  by (simp add: model_defs)

text \<open>
  C3, as the code has it: every selection hands exactly one place to the callback; the
  callback issues one write, and \<^verbatim>\<open>saveToRecentSearches\<close> issues a second one when its read
  of the slot succeeds, none when the read fails. The last conjunct counts the writes of
  \<^verbatim>\<open>PlacesSearch\<close> alone, under a callback that does nothing.
\<close>

theorem selection_one_callback_and_its_writes:
  "callbacks (since s (select_place mw rd wr p s)) = [OnPlaceSelect p]
   \<and> length (writes (since s (select_place mw rd wr p s)))
       = (case rd of Fulfils \<Rightarrow> 2 | Rejects \<Rightarrow> 1)
   \<and> callbacks (since s (PlacesSearch_handlePlaceSelect (\<lambda>p s. s) rd wr p s))
       = [OnPlaceSelect p]
   \<and> length (writes (since s (PlacesSearch_handlePlaceSelect (\<lambda>p s. s) rd wr p s)))
       = (case rd of Fulfils \<Rightarrow> 1 | Rejects \<Rightarrow> 0)"
proof -
  have app: "callbacks (since s (select_place mw rd wr p s)) = [OnPlaceSelect p]
     \<and> length (writes (since s (select_place mw rd wr p s)))
         = (case rd of Fulfils \<Rightarrow> 2 | Rejects \<Rightarrow> 1)"
    by (cases mw; cases rd; cases wr)
      (simp_all add: model_defs settled_writes_effects comp_def)
  have alone: "callbacks (since s (PlacesSearch_handlePlaceSelect (\<lambda>p s. s) rd wr p s))
       = [OnPlaceSelect p]
     \<and> length (writes (since s (PlacesSearch_handlePlaceSelect (\<lambda>p s. s) rd wr p s)))
       = (case rd of Fulfils \<Rightarrow> 1 | Rejects \<Rightarrow> 0)"
    by (cases rd; cases wr) (simp_all add: model_defs settled_writes_effects comp_def)
  from app alone show ?thesis by simp
qed

theorem selection_one_callback_and_its_writes_witness:
  "callbacks (since (mount None) (select_place Fulfils Rejects Fulfils place_B (mount None)))
     = [OnPlaceSelect place_B]
   \<and> length (writes (since (mount None)
        (select_place Fulfils Rejects Fulfils place_B (mount None)))) = 1"
  using selection_one_callback_and_its_writes
    [of "mount None" Fulfils Rejects Fulfils place_B]
  by simp

subsection \<open>C4: texts shorter than 2 characters\<close>

text \<open>
  C4 measures the trimmed text. The code compares \<^verbatim>\<open>searchText.length\<close>, untrimmed: three
  spaces have a trimmed length of 0 and are looked up.
\<close>

theorem blank_text_is_looked_up:
  "length (spec_trim ''   '') < 2
   \<and> posts (effects (settle (edits [(0, ''   '')] (mount None))))
       = [AutocompletePost ''   '' None]"
  by (simp add: model_defs spec_trim_def spec_is_space_def)

text \<open>
  C4, as the code has it: when the text is shorter than 2 characters, untrimmed, the
  debounced lookup issues no remote call and empties the suggestion list; from 2
  characters on it issues the call.
\<close>

theorem short_text_no_lookup:
  "(length (query tm) < 2 \<longrightarrow>
      effects (fetchPredictions tm s) = effects s \<and> predictions (fetchPredictions tm s) = [])
   \<and> (length x < 2 \<and> x \<noteq> searchText s' \<longrightarrow>
        effects (settle (handleTextChange x s')) = effects s'
      \<and> predictions (settle (handleTextChange x s')) = [])
   \<and> (2 \<le> length (query tm') \<longrightarrow>
        since s (fetchPredictions tm' s) = [AutocompletePost (query tm') (bias tm')])"
  by (auto simp add: model_defs)

theorem short_text_no_lookup_witness:
  "length ''a'' < 2
   \<and> effects (fetchPredictions \<lparr>due = 300, query = ''a'', bias = None\<rparr>
        (fetchPredictions_resume (Inr response_A) (mount None)))
       = effects (fetchPredictions_resume (Inr response_A) (mount None))
   \<and> predictions (fetchPredictions \<lparr>due = 300, query = ''a'', bias = None\<rparr>
        (fetchPredictions_resume (Inr response_A) (mount None))) = []
   \<and> ''a'' \<noteq> searchText (mount None)
   \<and> effects (settle (handleTextChange ''a'' (mount None))) = effects (mount None)
   \<and> predictions (settle (handleTextChange ''a'' (mount None))) = []
   \<and> since (mount None) (fetchPredictions \<lparr>due = 300, query = ''ab'', bias = None\<rparr> (mount None))
       = [AutocompletePost ''ab'' None]"
  using short_text_no_lookup
    [of "\<lparr>due = 300, query = ''a'', bias = None\<rparr>"
        "fetchPredictions_resume (Inr response_A) (mount None)"
        "''a''" "mount None" "\<lparr>due = 300, query = ''ab'', bias = None\<rparr>"]
    short_text_no_lookup
    [of "\<lparr>due = 300, query = ''a'', bias = None\<rparr>" "mount None"
        "''a''" "mount None" "\<lparr>due = 300, query = ''ab'', bias = None\<rparr>"]
  by (simp add: mount_def initial_def loadSearchHistory_def loadRecentSearches_def
      debounce_effect_def emit_def Let_def)

subsection \<open>C5: a selection whose write fails\<close>

text \<open>
  C5 says that the in-memory list is updated although the write fails. In
  \<^verbatim>\<open>saveToRecentSearches\<close> the call of \<^verbatim>\<open>setRecentSearches\<close> follows the awaited
  \<^verbatim>\<open>setItem\<close> inside the same \<^verbatim>\<open>try\<close>: a rejected write skips it. After a first selection
  whose write fails the recent searches are still empty.
\<close>

theorem rejected_write_skips_update:
  "callbacks (effects (select_place Fulfils Fulfils Rejects place_A (mount None)))
     = [OnPlaceSelect place_A]
   \<and> recentSearches (mount None) = []
   \<and> recentSearches (select_place Fulfils Fulfils Rejects place_A (mount None)) = []
   \<and> recentSearches (select_place Fulfils Fulfils Rejects place_A (mount None)) \<noteq> [place_A]"
  by (simp add: model_defs)

text \<open>
  C5, as the code has it: when the write of \<^verbatim>\<open>saveToRecentSearches\<close> fails, the callback has
  fired once, the failure is logged and goes no further, and the in-memory list of recent
  searches is what it was before the selection.
\<close>

theorem rejected_write_keeps_recentSearches:
  "recentSearches (select_place mw rd Rejects p s) = recentSearches s
   \<and> callbacks (since s (select_place mw rd Rejects p s)) = [OnPlaceSelect p]
   \<and> last (effects (select_place mw rd Rejects p s))
       = ConsoleError ''Error saving to recent searches:''"
  by (cases mw; cases rd)
    (simp_all add: model_defs settled_writes_effects settled_writes_fields comp_def)

theorem rejected_write_keeps_recentSearches_witness:
  "recentSearches (select_place Fulfils Fulfils Rejects place_B
      (select_place Fulfils Fulfils Fulfils place_A (mount None))) = [place_A]
   \<and> callbacks (since (select_place Fulfils Fulfils Fulfils place_A (mount None))
        (select_place Fulfils Fulfils Rejects place_B
          (select_place Fulfils Fulfils Fulfils place_A (mount None)))) = [OnPlaceSelect place_B]"
  using rejected_write_keeps_recentSearches
    [of Fulfils Fulfils place_B "select_place Fulfils Fulfils Fulfils place_A (mount None)"]
  by (simp add: model_defs)

subsection \<open>C6: a lookup that fails\<close>

text \<open>
  C6 counts a malformed body among the failures that leave the suggestion list as it was.
  The code checks no body: only a body on which the transformation throws is caught. A body
  whose \<^verbatim>\<open>mainText\<close> and \<^verbatim>\<open>secondaryText\<close> are objects without \<^verbatim>\<open>text\<close> throws nothing, and
  the list showing place A is replaced by a record with the description \<^verbatim>\<open>undefined\<close>.
\<close>

theorem malformed_body_replaces_list:
  "\<not> spec_well_formed response_without_text
   \<and> predictions (fetchPredictions_resume (Inr response_A) (mount None)) = [place_A]
   \<and> predictions (fetchPredictions_resume (Inr response_without_text)
        (fetchPredictions \<lparr>due = 300, query = ''ab'', bias = None\<rparr>
          (fetchPredictions_resume (Inr response_A) (mount None)))) = [place_without_text]
   \<and> [place_without_text] \<noteq> [place_A]
   \<and> effects (fetchPredictions_resume (Inr response_without_text)
        (fetchPredictions \<lparr>due = 300, query = ''ab'', bias = None\<rparr>
          (fetchPredictions_resume (Inr response_A) (mount None))))
       = [GetItem, GetItem, AutocompletePost ''ab'' None]"
proof -
  have "\<not> spec_well_formed response_without_text"
    by (simp add: spec_well_formed_def response_without_text_def)
  moreover have "[place_without_text] \<noteq> [place_A]"
    by (simp add: place_without_text_def place_A_def)
  ultimately show ?thesis
    by (simp add: model_defs transformed_response_A transformed_response_without_text)
qed

text \<open>
  C6, as the code has it: when the request rejects (network error, status outside 2xx) or
  the body makes the transformation throw (\<open>throws\<close>), the suggestion list after the lookup
  is the list before it and the loading flag is false; this holds for the failure arriving
  in any state, and for the lookup taken from its start, where the flag was raised.
  Whatever the response, the flag is false once the lookup has completed. Every other
  body, malformed or not, replaces the list by its transformation.
\<close>

theorem failed_lookup_keeps_predictions:
  "failed r \<Longrightarrow>
     predictions (fetchPredictions_resume r s) = predictions s
   \<and> loading (fetchPredictions_resume r s) = False
   \<and> (2 \<le> length (query tm) \<longrightarrow>
        loading (fetchPredictions tm s) = True
      \<and> predictions (fetchPredictions_resume r (fetchPredictions tm s)) = predictions s
      \<and> loading (fetchPredictions_resume r (fetchPredictions tm s)) = False)
   \<and> loading (fetchPredictions_resume r' s') = False
   \<and> (\<not> throws body \<longrightarrow>
        transformedPredictions body
          = Inr (predictions (fetchPredictions_resume (Inr body) s')))"
proof -
  assume f: "failed r"
  then have isl: "\<And>body. r = Inr body \<Longrightarrow> isl (transformedPredictions body)"
    by (simp add: failed_def transformedPredictions_throws)
  have kept: "predictions (fetchPredictions_resume r s0) = predictions s0" for s0
    using isl
    by (auto simp add: fetchPredictions_resume_def emit_def Let_def split: sum.splits)
  have released: "loading (fetchPredictions_resume r0 s0) = False" for r0 s0
    by (simp add: fetchPredictions_resume_def Let_def)
  have raised: "2 \<le> length (query tm) \<longrightarrow>
      loading (fetchPredictions tm s) = True
      \<and> predictions (fetchPredictions tm s) = predictions s"
    by (simp add: fetchPredictions_def emit_def)
  have replaced: "\<not> throws body \<longrightarrow>
      transformedPredictions body
        = Inr (predictions (fetchPredictions_resume (Inr body) s'))"
    using transformedPredictions_throws [of body]
    by (cases "transformedPredictions body")
      (simp_all add: fetchPredictions_resume_def Let_def)
  from kept [of s] kept [of "fetchPredictions tm s"] released raised replaced
  show ?thesis by simp
qed

theorem failed_lookup_keeps_predictions_witness:
  "failed (Inl TransportError) \<and> failed (Inr None)
   \<and> failed (Inr (Some [Suggestion (Some (PlacePrediction (Some ''A'') None))]))
   \<and> 2 \<le> length (query \<lparr>due = 300, query = ''ab'', bias = None\<rparr>)
   \<and> predictions (fetchPredictions_resume (Inr response_A) (mount None)) = [place_A]
   \<and> predictions (fetchPredictions_resume (Inl TransportError)
        (fetchPredictions \<lparr>due = 300, query = ''ab'', bias = None\<rparr>
          (fetchPredictions_resume (Inr response_A) (mount None)))) = [place_A]
   \<and> loading (fetchPredictions_resume (Inl TransportError)
        (fetchPredictions \<lparr>due = 300, query = ''ab'', bias = None\<rparr>
          (fetchPredictions_resume (Inr response_A) (mount None)))) = False
   \<and> loading (fetchPredictions_resume (Inr response_B) (mount None)) = False
   \<and> \<not> throws response_B
   \<and> predictions (fetchPredictions_resume (Inr response_B) (mount None)) = [place_B]"
proof -
  have f: "failed (Inl TransportError)" "failed (Inr None)"
    "failed (Inr (Some [Suggestion (Some (PlacePrediction (Some ''A'') None))]))"
    by (simp_all add: failed_def throws_def)
  have p: "predictions (fetchPredictions_resume (Inr response_A) (mount None)) = [place_A]"
    by (simp add: fetchPredictions_resume_def transformed_response_A Let_def)
  have t: "\<not> throws response_B"
    by (simp add: throws_def response_B_def)
  show ?thesis
    using f p t failed_lookup_keeps_predictions
      [OF f(1), of "fetchPredictions_resume (Inr response_A) (mount None)"
        "\<lparr>due = 300, query = ''ab'', bias = None\<rparr>" "Inr response_B" "mount None"
        response_B]
    by (simp add: transformed_response_B)
qed

subsection \<open>C7: the marker when the details request fails\<close>




subsection \<open>C8: rapid edits\<close>

text \<open>
  C8 says that rapid edits end in exactly one remote call. A single edit to a text of one
  character ends in none. And an edit that leaves the text as it is sets no state and so
  restarts no timer: with \<^verbatim>\<open>ab\<close> at 0 ms, \<^verbatim>\<open>ab\<close> again at 200 ms and \<^verbatim>\<open>abc\<close> at 400 ms the
  first timer fires at 300 ms, and two calls are issued.
\<close>

theorem rapid_edits_zero_or_two_calls:
  "rapid 0 [(0, ''a'')]
   \<and> posts (effects (settle (edits [(0, ''a'')] (mount None)))) = []
   \<and> rapid 0 [(0, ''ab''), (200, ''ab''), (400, ''abc'')]
   \<and> posts (effects (settle (edits [(0, ''ab''), (200, ''ab''), (400, ''abc'')] (mount None))))
       = [AutocompletePost ''ab'' None, AutocompletePost ''abc'' None]"
  by (simp add: model_defs)

text \<open>
  C8, as the code has it: for edits that each change the text and each arrive less than
  300 ms after the one before, all that happens from the first edit until the window after
  the last one has elapsed is one run of the lookup with the final text: one remote call
  carrying that text when it has at least 2 characters, nothing otherwise; no timer is left.
  An edit that changes the text leaves pending only its own timer, and issues nothing.
\<close>

theorem rapid_edits_single_lookup:
  "clock s \<le> t \<and> x \<noteq> searchText s \<and> rapid t es \<and> changing x es \<longrightarrow>
     since (advance t s) (settle (edits ((t, x) # es) s))
       = (if length (snd (last ((t, x) # es))) < 2 then []
          else [AutocompletePost (snd (last ((t, x) # es))) (userLocation s)])
     \<and> debounceTimer (settle (edits ((t, x) # es) s)) = None
     \<and> (y \<noteq> searchText s' \<longrightarrow>
          debounceTimer (handleTextChange y s')
            = Some \<lparr>due = clock s' + 300, query = y, bias = userLocation s'\<rparr>
        \<and> effects (handleTextChange y s') = effects s')"
proof (intro impI, elim conjE)
  assume le: "clock s \<le> t" and x: "x \<noteq> searchText s" and r: "rapid t es"
    and c: "changing x es"
  let ?s1 = "handleTextChange x (advance t s)"
  have a1: "armed ?s1" using x by (intro handleTextChange_armed) (simp add: advance_fields)
  have f1: "effects ?s1 = effects (advance t s)" "clock ?s1 = t"
    "userLocation ?s1 = userLocation s" "searchText ?s1 = x"
    using le by (simp_all add: handleTextChange_fields advance_fields)
  from edits_rapid[of ?s1 es] a1 f1 r c have
    E: "armed (edits es ?s1)" "effects (edits es ?s1) = effects (advance t s)"
     "userLocation (edits es ?s1) = userLocation s"
     "searchText (edits es ?s1) = snd (last ((t, x) # es))" by simp_all
  have "since (advance t s) (settle (edits es ?s1))
          = since (edits es ?s1) (settle (edits es ?s1))"
    using E(2) by (simp add: since_def)
  also have "\<dots> = (if length (searchText (edits es ?s1)) < 2 then []
      else [AutocompletePost (searchText (edits es ?s1)) (userLocation (edits es ?s1))])"
    using E(1) by (rule settle_armed)
  finally have one: "since (advance t s) (settle (edits ((t, x) # es) s))
       = (if length (snd (last ((t, x) # es))) < 2 then []
          else [AutocompletePost (snd (last ((t, x) # es))) (userLocation s)])"
    using E(3,4) by simp
  have idle: "debounceTimer (settle (edits ((t, x) # es) s)) = None"
    using settle_armed_idle[OF E(1)] by simp
  have cancel: "y \<noteq> searchText s' \<longrightarrow>
          debounceTimer (handleTextChange y s')
            = Some \<lparr>due = clock s' + 300, query = y, bias = userLocation s'\<rparr>
        \<and> effects (handleTextChange y s') = effects s'"
    by (simp add: handleTextChange_def setSearchText_def debounce_effect_def Let_def)
  from one idle cancel show
    "since (advance t s) (settle (edits ((t, x) # es) s))
       = (if length (snd (last ((t, x) # es))) < 2 then []
          else [AutocompletePost (snd (last ((t, x) # es))) (userLocation s)])
     \<and> debounceTimer (settle (edits ((t, x) # es) s)) = None
     \<and> (y \<noteq> searchText s' \<longrightarrow>
          debounceTimer (handleTextChange y s')
            = Some \<lparr>due = clock s' + 300, query = y, bias = userLocation s'\<rparr>
        \<and> effects (handleTextChange y s') = effects s')"
    by blast
qed

theorem rapid_edits_single_lookup_witness:
  "clock (mount None) \<le> 0 \<and> ''a'' \<noteq> searchText (mount None)
   \<and> rapid 0 [(100, ''ab''), (399, ''abc'')] \<and> changing ''a'' [(100, ''ab''), (399, ''abc'')]
   \<and> since (advance 0 (mount None))
        (settle (edits [(0, ''a''), (100, ''ab''), (399, ''abc'')] (mount None)))
       = [AutocompletePost ''abc'' None]
   \<and> debounceTimer (settle (edits [(0, ''a''), (100, ''ab''), (399, ''abc'')] (mount None)))
       = None
   \<and> ''abcd'' \<noteq> searchText (edits [(0, ''a''), (100, ''ab''), (399, ''abc'')] (mount None))
   \<and> debounceTimer (handleTextChange ''abcd''
        (edits [(0, ''a''), (100, ''ab''), (399, ''abc'')] (mount None)))
       = Some \<lparr>due = 699, query = ''abcd'', bias = None\<rparr>"
  using rapid_edits_single_lookup
    [of "mount None" 0 "''a''" "[(100, ''ab''), (399, ''abc'')]" "''abcd''"
        "edits [(0, ''a''), (100, ''ab''), (399, ''abc'')] (mount None)"]
  by (simp add: model_defs)

subsection \<open>C9: appending an id the history holds\<close>

text \<open>
  C9: when the slot holds a history list (distinct ids, at most 10 entries) in which the id
  of the record occurs, \<^verbatim>\<open>saveToRecentSearches\<close> leaves a list of the same length with the
  record at its front, in the slot and in memory.
\<close>

theorem append_existing_id:
  "storage s = Some h \<Longrightarrow> history_invariant h \<Longrightarrow> place_id p \<in> set (map place_id h) \<Longrightarrow>
     storage (saveToRecentSearches Fulfils Fulfils p s)
       = Some (recentSearches (saveToRecentSearches Fulfils Fulfils p s))
   \<and> length (recentSearches (saveToRecentSearches Fulfils Fulfils p s)) = length h
   \<and> recentSearches (saveToRecentSearches Fulfils Fulfils p s)
       = p # filter (\<lambda>q. place_id q \<noteq> place_id p) h"
proof -
  assume st: "storage s = Some h" and inv: "history_invariant h"
    and occurs: "place_id p \<in> set (map place_id h)"
  let ?rest = "filter (\<lambda>q. place_id q \<noteq> place_id p) h"
  from inv occurs have len: "length ?rest = length h - 1"
    by (simp add: history_invariant_def length_filter_other_ids)
  from occurs have pos: "0 < length h" by auto
  from inv have le: "length h \<le> 10" by (simp add: history_invariant_def)
  from len pos le have tk: "take 10 (p # ?rest) = p # ?rest" by simp
  have "storage (saveToRecentSearches Fulfils Fulfils p s) = Some (p # ?rest)"
    and rs: "recentSearches (saveToRecentSearches Fulfils Fulfils p s) = p # ?rest"
    using st tk
    by (simp_all add: saveToRecentSearches_def saveToRecentSearches_resume_def emit_def
        Let_def)
  moreover have "length (p # ?rest) = length h" using len pos by simp
  ultimately show ?thesis by simp
qed

theorem append_existing_id_witness:
  "storage (mount (Some [place_B, place_A])) = Some [place_B, place_A]
   \<and> history_invariant [place_B, place_A]
   \<and> place_id place_A \<in> set (map place_id [place_B, place_A])
   \<and> storage (saveToRecentSearches Fulfils Fulfils place_A (mount (Some [place_B, place_A])))
       = Some [place_A, place_B]
   \<and> recentSearches (saveToRecentSearches Fulfils Fulfils place_A
        (mount (Some [place_B, place_A]))) = [place_A, place_B]"
  using append_existing_id [of "mount (Some [place_B, place_A])" "[place_B, place_A]" place_A]
  by (simp add: model_defs history_invariant_def place_A_def place_B_def)

subsection \<open>C10: what a text change does at once\<close>

text \<open>
  C10: a change to the empty text empties the suggestion list and unsets the focus flag in
  the handler itself, at the time of the event; a change to any other text sets the flag.
\<close>

theorem text_change_immediate:
  "predictions (handleTextChange [] s) = []
   \<and> isInputFocused (handleTextChange [] s) = False
   \<and> clock (handleTextChange [] s) = clock s
   \<and> (t \<noteq> [] \<longrightarrow> isInputFocused (handleTextChange t s) = True)"
  by (simp add: handleTextChange_def setSearchText_def debounce_effect_def Let_def)

theorem text_change_immediate_witness:
  "predictions (handleTextChange ''ab'' (fetchPredictions_resume (Inr response_A) (mount None)))
     = [place_A]
   \<and> isInputFocused
       (handleTextChange ''ab'' (fetchPredictions_resume (Inr response_A) (mount None))) = True
   \<and> predictions (handleTextChange []
       (handleTextChange ''ab'' (fetchPredictions_resume (Inr response_A) (mount None)))) = []
   \<and> isInputFocused (handleTextChange []
       (handleTextChange ''ab'' (fetchPredictions_resume (Inr response_A) (mount None))))
       = False"
  using text_change_immediate
    [of "handleTextChange ''ab'' (fetchPredictions_resume (Inr response_A) (mount None))"
        "''ab''" ]
    text_change_immediate
    [of "fetchPredictions_resume (Inr response_A) (mount None)" "''ab''"]
  by (simp add: model_defs transformed_response_A)

end
